theory Spec2Isabelle
  imports Complex_Main "HOL-Library.Word"
begin

unbundle bit_operations_syntax

section \<open>Values of type double\<close>

text \<open>
  The native code of \<^verbatim>\<open>libloud.cpp\<close> computes on C \<^verbatim>\<open>double\<close>s. A double is modelled
  as a real number, or one of the two infinities, or NaN. Arithmetic on finite values is
  exact: the rounding of binary64 is not part of the model, nor are signed zeros and
  overflow to infinity. The special values follow IEEE 754: a finite non-zero value
  divided by zero is an infinity, \<open>0 / 0\<close>, \<open>\<infinity> - \<infinity>\<close> and \<open>\<infinity> * 0\<close> are NaN, and
  every ordered comparison with NaN is false.
\<close>

datatype double = Fin real | PInf | NInf | NaN

fun isnan :: "double \<Rightarrow> bool" where
  "isnan NaN = True"
| "isnan _ = False"

fun d_neg :: "double \<Rightarrow> double" where
  "d_neg (Fin a) = Fin (- a)"
| "d_neg PInf = NInf"
| "d_neg NInf = PInf"
| "d_neg NaN = NaN"

fun d_abs :: "double \<Rightarrow> double" where
  "d_abs (Fin a) = Fin \<bar>a\<bar>"
| "d_abs PInf = PInf"
| "d_abs NInf = PInf"
| "d_abs NaN = NaN"

fun d_add :: "double \<Rightarrow> double \<Rightarrow> double" where
  "d_add (Fin a) (Fin b) = Fin (a + b)"
| "d_add (Fin a) PInf = PInf"
| "d_add (Fin a) NInf = NInf"
| "d_add PInf (Fin b) = PInf"
| "d_add PInf PInf = PInf"
| "d_add PInf NInf = NaN"
| "d_add NInf (Fin b) = NInf"
| "d_add NInf PInf = NaN"
| "d_add NInf NInf = NInf"
| "d_add NaN _ = NaN"
| "d_add _ NaN = NaN"

definition d_sub :: "double \<Rightarrow> double \<Rightarrow> double" where
  "d_sub a b = d_add a (d_neg b)"

fun d_mul :: "double \<Rightarrow> double \<Rightarrow> double" where
  "d_mul (Fin a) (Fin b) = Fin (a * b)"
| "d_mul (Fin a) PInf = (if 0 < a then PInf else if a < 0 then NInf else NaN)"
| "d_mul (Fin a) NInf = (if 0 < a then NInf else if a < 0 then PInf else NaN)"
| "d_mul PInf (Fin b) = (if 0 < b then PInf else if b < 0 then NInf else NaN)"
| "d_mul NInf (Fin b) = (if 0 < b then NInf else if b < 0 then PInf else NaN)"
| "d_mul PInf PInf = PInf"
| "d_mul PInf NInf = NInf"
| "d_mul NInf PInf = NInf"
| "d_mul NInf NInf = PInf"
| "d_mul NaN _ = NaN"
| "d_mul _ NaN = NaN"

text \<open>
  Division. The only zero divisors of the program are the two last entries of
  \<^verbatim>\<open>ydiv_arr\<close>, both \<open>+0.0\<close>, so a zero divisor is read as positive zero.
\<close>

fun d_div :: "double \<Rightarrow> double \<Rightarrow> double" where
  "d_div (Fin a) (Fin b) =
     (if b \<noteq> 0 then Fin (a / b)
      else if 0 < a then PInf else if a < 0 then NInf else NaN)"
| "d_div (Fin a) PInf = Fin 0"
| "d_div (Fin a) NInf = Fin 0"
| "d_div PInf (Fin b) = (if 0 \<le> b then PInf else NInf)"
| "d_div NInf (Fin b) = (if 0 \<le> b then NInf else PInf)"
| "d_div PInf PInf = NaN"
| "d_div PInf NInf = NaN"
| "d_div NInf PInf = NaN"
| "d_div NInf NInf = NaN"
| "d_div NaN _ = NaN"
| "d_div _ NaN = NaN"

text \<open>The comparison \<^verbatim>\<open>a < b\<close>; \<^verbatim>\<open>a > b\<close> is \<open>d_less b a\<close>.\<close>

fun d_less :: "double \<Rightarrow> double \<Rightarrow> bool" where
  "d_less (Fin a) (Fin b) = (a < b)"
| "d_less (Fin a) PInf = True"
| "d_less NInf (Fin b) = True"
| "d_less NInf PInf = True"
| "d_less _ _ = False"

text \<open>The comparison \<^verbatim>\<open>a >= b\<close>.\<close>

fun d_ge :: "double \<Rightarrow> double \<Rightarrow> bool" where
  "d_ge (Fin a) (Fin b) = (b \<le> a)"
| "d_ge PInf (Fin b) = True"
| "d_ge PInf PInf = True"
| "d_ge PInf NInf = True"
| "d_ge (Fin a) NInf = True"
| "d_ge NInf NInf = True"
| "d_ge _ _ = False"

fun d_floor :: "double \<Rightarrow> double" where
  "d_floor (Fin a) = Fin (of_int \<lfloor>a\<rfloor>)"
| "d_floor d = d"

fun d_ceil :: "double \<Rightarrow> double" where
  "d_ceil (Fin a) = Fin (of_int \<lceil>a\<rceil>)"
| "d_ceil d = d"

text \<open>
  Conversion of a floating value to an integer type truncates towards zero.
\<close>

definition trunc :: "real \<Rightarrow> int" where
  "trunc r = (if 0 \<le> r then \<lfloor>r\<rfloor> else \<lceil>r\<rceil>)"

section \<open>Latitude and longitude to grid square\<close>

text \<open>
  \<^verbatim>\<open>WSPRLatLonToGSQ\<close> throws a \<^verbatim>\<open>java/lang/Exception\<close> with a message and returns
  \<^verbatim>\<open>NULL\<close>, or returns a Java string made from a local, NUL-terminated \<^verbatim>\<open>char\<close> buffer.
\<close>

datatype java_exception = Exception string

definition nan_message :: string where
  "nan_message = ''Latitude or longitude is NaN!''"

definition pole_message :: string where
  "pole_message = ''Latitude is >= +-90 deg. Grid sq. doesn't work on poles.''"

text \<open>
  \<^verbatim>\<open>double ydiv_arr[] = {10, 1, 0.04166666, 1 / 240, 1 / 240 / 24};\<close>
  The two last initialisers are quotients of \<^verbatim>\<open>int\<close> constants, computed in integer
  arithmetic before the conversion to double.
\<close>

definition ydiv_arr :: "double list" where
  "ydiv_arr =
     [Fin 10, Fin 1, Fin 0.04166666,
      Fin (of_int ((1::int) div 240)), Fin (of_int ((1::int) div 240 div 24))]"

record gsq_arrays =
  ycalc :: "double list"
  yn :: "double list"

text \<open>The body of the inner loop, at the indices \<open>yi\<close> and \<open>yk\<close>.\<close>

definition gsq_body :: "nat \<Rightarrow> nat \<Rightarrow> gsq_arrays \<Rightarrow> gsq_arrays" where
  "gsq_body yi yk st =
     (let ydiv = ydiv_arr ! yk;
          yres = d_div (ycalc st ! yi) ydiv;
          ylp = (if d_less (Fin 0) yres then d_floor yres else d_ceil yres)
      in st\<lparr>ycalc := (ycalc st)[yi := d_mul (d_sub yres ylp) ydiv],
            yn := (yn st)[2 * yk + yi := ylp]\<rparr>)"

definition gsq_loops :: "gsq_arrays \<Rightarrow> gsq_arrays" where
  "gsq_loops st = fold (\<lambda>yi. fold (\<lambda>yk. gsq_body yi yk) [0..<5]) [0..<2] st"

text \<open>
  The two conditional corrections of the longitude, in the order of the source.
\<close>

definition normalize_lon :: "double \<Rightarrow> double" where
  "normalize_lon lon =
     (let lon1 = (if d_less lon (Fin (- 180)) then d_add lon (Fin 360) else lon)
      in if d_less (Fin 180) lon1 then d_sub lon1 (Fin 360) else lon1)"

text \<open>
  \<^verbatim>\<open>(char) (yn[k] + 'A')\<close>: the conversion of a double to \<^verbatim>\<open>char\<close> is defined by the
  language when the truncated value fits the type. \<^verbatim>\<open>char\<close> is signed on some targets
  and unsigned on others, so the values \<open>0..127\<close> are those that fit everywhere. For
  any other value, and for the infinities and NaN, the behaviour is undefined; what a
  given target produces there is the parameter \<open>ub\<close>.
\<close>

definition char_cast :: "(double \<Rightarrow> char) \<Rightarrow> double \<Rightarrow> char" where
  "char_cast ub d =
     (case d of
        Fin r \<Rightarrow> if - 1 < r \<and> r < 128 then char_of (trunc r) else ub d
      | _ \<Rightarrow> ub d)"

text \<open>The contents of a NUL-terminated buffer, as \<^verbatim>\<open>NewStringUTF\<close> reads it.\<close>

definition c_string :: "char list \<Rightarrow> string" where
  "c_string buf = takeWhile (\<lambda>c. c \<noteq> CHR 0x00) buf"

text \<open>
  \<^verbatim>\<open>double ycalc[] = {0, 0, 0, 0, 0, 0, 0, 0, 0, 0};\<close> and the same for \<^verbatim>\<open>yn\<close>.
\<close>

definition ten_zeros :: "double list" where
  "ten_zeros = [Fin 0, Fin 0, Fin 0, Fin 0, Fin 0, Fin 0, Fin 0, Fin 0, Fin 0, Fin 0]"

definition gsq_digits :: "double \<Rightarrow> double \<Rightarrow> double list" where
  "gsq_digits lon lat =
     yn (gsq_loops
       \<lparr>ycalc = ten_zeros
                  [0 := d_div (d_add lat (Fin 180)) (Fin 2),
                   1 := d_add (normalize_lon lon) (Fin 90)],
        yn = ten_zeros\<rparr>)"

definition gsq_result :: "(double \<Rightarrow> char) \<Rightarrow> double list \<Rightarrow> char list" where
  "gsq_result ub ds =
     [char_cast ub (d_add (ds ! 0) (Fin 65)),
      char_cast ub (d_add (ds ! 1) (Fin 65)),
      char_cast ub (d_add (ds ! 2) (Fin 48)),
      char_cast ub (d_add (ds ! 3) (Fin 48)),
      char_cast ub (d_add (ds ! 4) (Fin 97)),
      char_cast ub (d_add (ds ! 5) (Fin 97)),
      CHR 0x00]"

text \<open>
  The parameters are in the order of the source: longitude first. \<^verbatim>\<open>abs(lat)\<close> is the
  absolute value of the double (the overload for \<^verbatim>\<open>double\<close> of the C++ library).
\<close>

definition WSPRLatLonToGSQ ::
  "(double \<Rightarrow> char) \<Rightarrow> double \<Rightarrow> double \<Rightarrow> java_exception + string" where
  "WSPRLatLonToGSQ ub lon lat =
     (if isnan lat \<or> isnan lon then Inl (Exception nan_message)
      else if d_ge (d_abs lat) (Fin 90) then Inl (Exception pole_message)
      else Inr (c_string (gsq_result ub (gsq_digits lon lat))))"

section \<open>Symbols to PCM samples\<close>

definition WSPR_SYMBOL_COUNT :: nat where
  "WSPR_SYMBOL_COUNT = 162"

definition WSPR_SYMBOL_LENGTH :: nat where
  "WSPR_SYMBOL_LENGTH = 8192"

text \<open>
  \<^verbatim>\<open>snprintf(powr, 3, "%02d", (int) j_powr)\<close>: the decimal numeral of the power, padded
  with zeros to two characters, of which the buffer of three bytes keeps the first two.
\<close>

fun decimal :: "nat \<Rightarrow> string" where
  "decimal n =
     (if n < 10 then [char_of (48 + n)]
      else decimal (n div 10) @ [char_of (48 + n mod 10)])"

definition format_02d :: "int \<Rightarrow> string" where
  "format_02d v =
     (let s = (if v < 0 then CHR ''-'' # decimal (nat (- v)) else decimal (nat v))
      in replicate (2 - length s) (CHR ''0'') @ s)"

definition powr_string :: "32 word \<Rightarrow> string" where
  "powr_string j_powr = take 2 (format_02d (sint j_powr))"

text \<open>
  \<^verbatim>\<open>LB_WSPR_Encode2symbolz\<close> is declared in \<^verbatim>\<open>lbenc2/wenc.h\<close> and fills the local array
  \<^verbatim>\<open>uint8_t symbols[162]\<close> from the call sign, the locator and the power string. It is a
  parameter of the model: a function \<open>enc\<close> from the three strings to the contents of
  the array, indexed from 0.
\<close>

type_synonym encoder = "string \<Rightarrow> string \<Rightarrow> string \<Rightarrow> nat \<Rightarrow> 8 word"

text \<open>
  The doubles of the two encoders are finite. They are modelled by reals, with exact
  arithmetic and the sine of the reals.

  \<^verbatim>\<open>short volume = 16383;\<close> and \<^verbatim>\<open>double amp = volume >> 2;\<close>
\<close>

definition volume :: "16 word" where
  "volume = 16383"

definition amp :: real where
  "amp = of_int (drop_bit 2 (sint volume))"

definition TAU :: real where
  "TAU = 2 * pi"

text \<open>
  \<^verbatim>\<open>double frequency = 1500 + ((int) j_offset) + symbols[i] * 1.4548;\<close>
  The first sum is a sum of two \<^verbatim>\<open>int\<close>s, here with the wrap-around of 32 bits.
\<close>

definition pcm_frequency :: "32 word \<Rightarrow> 8 word \<Rightarrow> real" where
  "pcm_frequency j_offset s = of_int (sint (1500 + j_offset)) + real (unat s) * 1.4548"

definition short_cast :: "real \<Rightarrow> 16 word" where
  "short_cast r = word_of_int (trunc r)"

definition pcm_sample :: "real \<Rightarrow> nat \<Rightarrow> 16 word" where
  "pcm_sample theta step = short_cast (amp * sin (theta * real step))"

record pcm_state =
  symbols :: "nat \<Rightarrow> 8 word"
  sound :: "16 word list"

text \<open>The inner loop over \<open>step\<close>, writing the block of symbol \<open>i\<close>.\<close>

definition pcm_inner :: "nat \<Rightarrow> real \<Rightarrow> 16 word list \<Rightarrow> 16 word list" where
  "pcm_inner i theta buf =
     fold (\<lambda>step b. b[i * WSPR_SYMBOL_LENGTH + step := pcm_sample theta step])
       [0..<WSPR_SYMBOL_LENGTH] buf"

text \<open>The body of the outer loop: in LSB mode the symbol is replaced in the array.\<close>

definition pcm_body :: "bool \<Rightarrow> 32 word \<Rightarrow> nat \<Rightarrow> pcm_state \<Rightarrow> pcm_state" where
  "pcm_body lsb_mod j_offset i st =
     (let syms = (if lsb_mod then (symbols st)(i := 3 - symbols st i) else symbols st);
          frequency = pcm_frequency j_offset (syms i);
          theta = frequency * TAU / 12000
      in \<lparr>symbols = syms, sound = pcm_inner i theta (sound st)\<rparr>)"

definition pcm_sound :: "(nat \<Rightarrow> 8 word) \<Rightarrow> 32 word \<Rightarrow> bool \<Rightarrow> 16 word list" where
  "pcm_sound syms j_offset lsb_mod =
     sound (fold (pcm_body lsb_mod j_offset) [0..<WSPR_SYMBOL_COUNT]
       \<lparr>symbols = syms,
        sound = replicate (WSPR_SYMBOL_COUNT * WSPR_SYMBOL_LENGTH) 0\<rparr>)"

text \<open>
  \<^verbatim>\<open>SetByteArrayRegion\<close> copies the memory of the native array into the Java byte
  array, so each element appears in the byte order of the platform.
\<close>

datatype byte_order = LittleEndian | BigEndian

definition le_bytes :: "nat \<Rightarrow> 'a::len word \<Rightarrow> 8 word list" where
  "le_bytes n w = map (\<lambda>k. ucast (drop_bit (8 * k) w)) [0..<n]"

definition native_bytes :: "byte_order \<Rightarrow> nat \<Rightarrow> 'a::len word \<Rightarrow> 8 word list" where
  "native_bytes e n w = (case e of LittleEndian \<Rightarrow> le_bytes n w | BigEndian \<Rightarrow> rev (le_bytes n w))"

text \<open>
  The Java strings reach the encoder as they are. The buffer comes from an unchecked
  \<^verbatim>\<open>malloc\<close> and is cleared by \<^verbatim>\<open>memset\<close>; the allocation is taken to succeed, as the
  source takes it.
\<close>

definition WSPREncodeToPCM ::
  "byte_order \<Rightarrow> encoder \<Rightarrow> string \<Rightarrow> string \<Rightarrow> 32 word \<Rightarrow> 32 word \<Rightarrow> bool \<Rightarrow> 8 word list" where
  "WSPREncodeToPCM e enc j_calls j_loca j_powr j_offset lsb_mod =
     concat (map (native_bytes e 2)
       (pcm_sound (enc j_calls j_loca (powr_string j_powr)) j_offset lsb_mod))"

section \<open>Symbols to frequencies\<close>

text \<open>
  \<^verbatim>\<open>double frequency_hz = 1500.0 + ((double) j_offset) + (symbol * 1.4648);\<close>
  \<^verbatim>\<open>frequencies[i] = (int64_t) (frequency_hz * 100.0);\<close>
\<close>

definition frequency_hz :: "bool \<Rightarrow> 32 word \<Rightarrow> 8 word \<Rightarrow> real" where
  "frequency_hz lsb_mode j_offset s =
     (let symbol = (if lsb_mode then 3 - s else s)
      in 1500 + of_int (sint j_offset) + real (unat symbol) * 1.4648)"

definition frequency_entry :: "bool \<Rightarrow> 32 word \<Rightarrow> 8 word \<Rightarrow> 64 word" where
  "frequency_entry lsb_mode j_offset s =
     word_of_int (trunc (frequency_hz lsb_mode j_offset s * 100))"

definition frequencies :: "(nat \<Rightarrow> 8 word) \<Rightarrow> 32 word \<Rightarrow> bool \<Rightarrow> 64 word list" where
  "frequencies syms j_offset lsb_mode =
     map (\<lambda>i. frequency_entry lsb_mode j_offset (syms i)) [0..<WSPR_SYMBOL_COUNT]"

text \<open>
  The two allocations of this function are checked, and it returns \<^verbatim>\<open>NULL\<close> when one
  fails: whether \<^verbatim>\<open>malloc\<close> and \<^verbatim>\<open>NewByteArray\<close> succeed are the parameters
  \<open>malloc_ok\<close> and \<open>new_array_ok\<close>.
\<close>

definition WSPREncodeToFrequencies ::
  "byte_order \<Rightarrow> encoder \<Rightarrow> bool \<Rightarrow> bool \<Rightarrow>
   string \<Rightarrow> string \<Rightarrow> 32 word \<Rightarrow> 32 word \<Rightarrow> bool \<Rightarrow> 8 word list option" where
  "WSPREncodeToFrequencies e enc malloc_ok new_array_ok j_calls j_local j_powr j_offset lsb_mode =
     (if \<not> malloc_ok then None
      else if \<not> new_array_ok then None
      else Some (concat (map (native_bytes e 8)
             (frequencies (enc j_calls j_local (powr_string j_powr)) j_offset lsb_mode))))"

section \<open>Closed forms used in the proofs\<close>

text \<open>
  The symbol that the outer loop of the PCM encoder finds at an index once the LSB
  replacement is done, and the sample that the two loops leave at position \<open>k\<close> of the
  buffer: that of symbol \<open>k div 8192\<close> at step \<open>k mod 8192\<close>.
\<close>

definition lsb_symbol :: "bool \<Rightarrow> 8 word \<Rightarrow> 8 word" where
  "lsb_symbol lsb_mod s = (if lsb_mod then 3 - s else s)"

definition block_sample :: "(nat \<Rightarrow> 8 word) \<Rightarrow> 32 word \<Rightarrow> bool \<Rightarrow> nat \<Rightarrow> 16 word" where
  "block_sample syms j_offset lsb_mod k =
     pcm_sample (pcm_frequency j_offset (lsb_symbol lsb_mod (syms (k div WSPR_SYMBOL_LENGTH))) * TAU / 12000)
       (k mod WSPR_SYMBOL_LENGTH)"

text \<open>
  The shape of a locator in the words of the specification: six characters, the first
  two from A to R, the next two digits, the last two from a to x.
\<close>

definition spec_locator_shape :: "string \<Rightarrow> bool" where
  "spec_locator_shape s \<longleftrightarrow>
     length s = 6
     \<and> s ! 0 \<in> set ''ABCDEFGHIJKLMNOPQR'' \<and> s ! 1 \<in> set ''ABCDEFGHIJKLMNOPQR''
     \<and> s ! 2 \<in> set ''0123456789'' \<and> s ! 3 \<in> set ''0123456789''
     \<and> s ! 4 \<in> set ''abcdefghijklmnopqrstuvwx'' \<and> s ! 5 \<in> set ''abcdefghijklmnopqrstuvwx''"

section \<open>Concrete inputs\<close>

text \<open>
  Inputs at which the functions are evaluated below: a target on which every
  conversion to \<^verbatim>\<open>char\<close> that the language leaves undefined gives the NUL character,
  a symbol array of zeros, and an encoder that fills the array with zeros.
\<close>

definition nul_cast :: "double \<Rightarrow> char" where
  "nul_cast d = CHR 0x00"

definition zero_symbols :: "nat \<Rightarrow> 8 word" where
  "zero_symbols i = 0"

definition zero_encoder :: encoder where
  "zero_encoder j_calls j_loca pw = zero_symbols"

section \<open>The loops of the PCM encoder\<close>

lemma update_nth_any:
  "xs[j := v] ! k = (if j = k \<and> j < length xs then v else xs ! k)"
  by (cases "j < length xs") (auto simp: nth_list_update list_update_beyond)

lemma fold_update_length:
  "length (fold (\<lambda>step b. b[f step := g step]) ns xs) = length xs"
  by (induction ns arbitrary: xs) simp_all

lemma fold_update_nth:
  "fold (\<lambda>step b. b[base + step := g step]) [0..<n] xs ! k =
     (if base \<le> k \<and> k < base + n \<and> k < length xs then g (k - base) else xs ! k)"
proof (induction n)
  case 0
  show ?case by auto
next
  case (Suc n)
  show ?case
    by (auto simp: Suc update_nth_any fold_update_length)
qed

lemma pcm_inner_length: "length (pcm_inner i theta buf) = length buf"
  by (simp add: pcm_inner_def fold_update_length)

lemma pcm_inner_nth:
  "pcm_inner i theta buf ! k =
     (if i * WSPR_SYMBOL_LENGTH \<le> k \<and> k < i * WSPR_SYMBOL_LENGTH + WSPR_SYMBOL_LENGTH
          \<and> k < length buf
      then pcm_sample theta (k - i * WSPR_SYMBOL_LENGTH) else buf ! k)"
  unfolding pcm_inner_def by (rule fold_update_nth)

lemma pcm_body_symbols:
  "symbols (pcm_body lsb_mod j_offset i st) =
     (symbols st)(i := lsb_symbol lsb_mod (symbols st i))"
  by (simp add: pcm_body_def Let_def lsb_symbol_def)

lemma pcm_body_length:
  "length (sound (pcm_body lsb_mod j_offset i st)) = length (sound st)"
  by (simp add: pcm_body_def Let_def pcm_inner_length)

lemma pcm_body_nth:
  "sound (pcm_body lsb_mod j_offset i st) ! k =
     (if i * WSPR_SYMBOL_LENGTH \<le> k \<and> k < i * WSPR_SYMBOL_LENGTH + WSPR_SYMBOL_LENGTH
          \<and> k < length (sound st)
      then pcm_sample (pcm_frequency j_offset (lsb_symbol lsb_mod (symbols st i)) * TAU / 12000)
             (k - i * WSPR_SYMBOL_LENGTH)
      else sound st ! k)"
  by (simp add: pcm_body_def Let_def pcm_inner_nth lsb_symbol_def)

lemma pcm_fold_symbols:
  "symbols (fold (pcm_body lsb_mod j_offset) [0..<n] st) =
     (\<lambda>j. if j < n then lsb_symbol lsb_mod (symbols st j) else symbols st j)"
  by (induction n) (auto simp: pcm_body_symbols fun_eq_iff less_Suc_eq)

lemma pcm_fold_length:
  "length (sound (fold (pcm_body lsb_mod j_offset) [0..<n] st)) = length (sound st)"
  by (induction n) (simp_all add: pcm_body_length)

lemma block_index:
  assumes "i * WSPR_SYMBOL_LENGTH \<le> k" "k < i * WSPR_SYMBOL_LENGTH + WSPR_SYMBOL_LENGTH"
  shows "k div WSPR_SYMBOL_LENGTH = i" "k mod WSPR_SYMBOL_LENGTH = k - i * WSPR_SYMBOL_LENGTH"
proof -
  have pos: "0 < WSPR_SYMBOL_LENGTH" by (simp add: WSPR_SYMBOL_LENGTH_def)
  obtain r where r: "k = i * WSPR_SYMBOL_LENGTH + r" "r < WSPR_SYMBOL_LENGTH"
    using assms by (metis le_Suc_ex nat_add_left_cancel_less)
  show "k div WSPR_SYMBOL_LENGTH = i" using r pos by simp
  show "k mod WSPR_SYMBOL_LENGTH = k - i * WSPR_SYMBOL_LENGTH" using r pos by simp
qed

lemma pcm_fold_nth:
  "k < length (sound st) \<Longrightarrow>
   sound (fold (pcm_body lsb_mod j_offset) [0..<n] st) ! k =
     (if k < n * WSPR_SYMBOL_LENGTH then block_sample (symbols st) j_offset lsb_mod k
      else sound st ! k)"
proof (induction n)
  case 0
  show ?case by simp
next
  case (Suc n)
  let ?st = "fold (pcm_body lsb_mod j_offset) [0..<n] st"
  have len: "length (sound ?st) = length (sound st)" by (rule pcm_fold_length)
  have sym: "symbols ?st n = symbols st n" by (simp add: pcm_fold_symbols)
  have unroll: "fold (pcm_body lsb_mod j_offset) [0..<Suc n] st = pcm_body lsb_mod j_offset n ?st"
    by simp
  have step: "sound (pcm_body lsb_mod j_offset n ?st) ! k =
      (if n * WSPR_SYMBOL_LENGTH \<le> k \<and> k < n * WSPR_SYMBOL_LENGTH + WSPR_SYMBOL_LENGTH
       then pcm_sample (pcm_frequency j_offset (lsb_symbol lsb_mod (symbols st n)) * TAU / 12000)
              (k - n * WSPR_SYMBOL_LENGTH)
       else sound ?st ! k)"
    using Suc.prems by (simp add: pcm_body_nth len sym)
  show ?case
  proof (cases "n * WSPR_SYMBOL_LENGTH \<le> k \<and> k < n * WSPR_SYMBOL_LENGTH + WSPR_SYMBOL_LENGTH")
    case True
    then have "k div WSPR_SYMBOL_LENGTH = n" "k mod WSPR_SYMBOL_LENGTH = k - n * WSPR_SYMBOL_LENGTH"
      by (simp_all add: block_index)
    with True show ?thesis
      unfolding unroll step by (simp add: block_sample_def)
  next
    case False
    then have "sound (pcm_body lsb_mod j_offset n ?st) ! k = sound ?st ! k"
      by (simp only: step if_False)
    with False Suc show ?thesis
      unfolding unroll by auto
  qed
qed

lemma pcm_sound_length:
  "length (pcm_sound syms j_offset lsb_mod) = WSPR_SYMBOL_COUNT * WSPR_SYMBOL_LENGTH"
  by (simp add: pcm_sound_def pcm_fold_length)

lemma pcm_sound_nth:
  "k < WSPR_SYMBOL_COUNT * WSPR_SYMBOL_LENGTH \<Longrightarrow>
   pcm_sound syms j_offset lsb_mod ! k = block_sample syms j_offset lsb_mod k"
  by (simp add: pcm_sound_def pcm_fold_nth)

lemma pcm_sound_eq:
  "pcm_sound syms j_offset lsb_mod =
     map (block_sample syms j_offset lsb_mod) [0..<WSPR_SYMBOL_COUNT * WSPR_SYMBOL_LENGTH]"
  by (rule nth_equalityI) (simp_all add: pcm_sound_length pcm_sound_nth)

text \<open>The value converted to \<^verbatim>\<open>short\<close> is within the range of the type.\<close>

lemma pcm_sample_in_range: "\<bar>amp * sin x\<bar> \<le> 4095"
proof -
  have "\<bar>amp * sin x\<bar> = 4095 * \<bar>sin x\<bar>"
    by (simp add: amp_def volume_def abs_mult)
  also have "\<dots> \<le> 4095 * 1"
    by (intro mult_left_mono) simp_all
  finally show ?thesis by simp
qed

section \<open>Byte images\<close>

lemma native_bytes_length: "length (native_bytes e n w) = n"
  by (cases e) (simp_all add: native_bytes_def le_bytes_def)

lemma concat_fixed_length:
  "(\<And>x. length (f x) = n) \<Longrightarrow> length (concat (map f xs)) = n * length xs"
  by (induction xs) simp_all

lemma concat_fixed_slice:
  "(\<And>x. length (f x) = n) \<Longrightarrow> i < length xs \<Longrightarrow>
   take n (drop (n * i) (concat (map f xs))) = f (xs ! i)"
proof (induction xs arbitrary: i)
  case Nil
  then show ?case by simp
next
  case (Cons x xs)
  show ?case
  proof (cases i)
    case 0
    then show ?thesis using Cons.prems(1) by simp
  next
    case (Suc j)
    then have "j < length xs" using Cons.prems(2) by simp
    then have "take n (drop (n * j) (concat (map f xs))) = f (xs ! j)"
      using Cons.IH Cons.prems(1) by blast
    then show ?thesis using Suc Cons.prems(1) [of x] by simp
  qed
qed

lemma native_bytes_150000:
  "native_bytes LittleEndian 8 (150000 :: 64 word) = [240, 73, 2, 0, 0, 0, 0, 0]
   \<and> native_bytes BigEndian 8 (150000 :: 64 word) = [0, 0, 0, 0, 0, 2, 73, 240]"
  by (simp add: native_bytes_def le_bytes_def upt_rec)

section \<open>Range of the frequency entries\<close>

lemma trunc_bounds:
  "- of_int B \<le> r \<Longrightarrow> r \<le> of_int B \<Longrightarrow> - B \<le> trunc r \<and> trunc r \<le> B"
  unfolding trunc_def by (auto simp: le_floor_iff floor_le_iff ceiling_le_iff le_ceiling_iff)

lemma frequency_hz_bounds:
  "- 2147482148 \<le> frequency_hz lsb_mode j_offset s \<and> frequency_hz lsb_mode j_offset s \<le> 2147485522"
proof -
  define n where "n = unat (if lsb_mode then 3 - s else s)"
  define off where "off = sint j_offset"
  have "n < 2 ^ 8"
    unfolding n_def using unsigned_less [of "if lsb_mode then 3 - s else s", where ?'a = nat]
    by simp
  then have u: "real n \<le> 255" by simp
  have "- (2 ^ 31) \<le> off" "off < 2 ^ 31"
    using sint_ge [of j_offset] sint_lt [of j_offset] by (simp_all add: off_def)
  then have o: "- 2147483648 \<le> real_of_int off" "real_of_int off \<le> 2147483647"
    by simp_all
  have "0 \<le> real n * 1.4648" by simp
  moreover have "real n * 1.4648 \<le> 255 * 1.4648" using u by simp
  moreover have "frequency_hz lsb_mode j_offset s = 1500 + real_of_int off + real n * 1.4648"
    unfolding frequency_hz_def n_def off_def Let_def ..
  ultimately show ?thesis using o by simp
qed

lemma frequency_entry_sint:
  "sint (frequency_entry lsb_mode j_offset s) = trunc (frequency_hz lsb_mode j_offset s * 100)"
proof -
  have "- real_of_int 214748552200 \<le> frequency_hz lsb_mode j_offset s * 100"
       "frequency_hz lsb_mode j_offset s * 100 \<le> real_of_int 214748552200"
    using frequency_hz_bounds [of lsb_mode j_offset s] by simp_all
  then have "- 214748552200 \<le> trunc (frequency_hz lsb_mode j_offset s * 100)
           \<and> trunc (frequency_hz lsb_mode j_offset s * 100) \<le> 214748552200"
    by (rule trunc_bounds)
  then show ?thesis
    unfolding frequency_entry_def by (simp add: sint_sbintrunc' signed_take_bit_int_eq_self)
qed

lemma lsb_symbol_valid:
  "unat s \<le> 3 \<Longrightarrow> unat (3 - s :: 8 word) = 3 - unat s"
proof -
  assume "unat s \<le> 3"
  then have "s \<le> 3" by (simp add: word_le_nat_alt)
  then show ?thesis by (simp add: unat_sub)
qed

lemma frequency_entry_valid:
  assumes "unat s \<le> 3"
  shows "sint (frequency_entry lsb_mode j_offset s)
          = trunc ((1500 + real_of_int (sint j_offset)
                    + real (if lsb_mode then 3 - unat s else unat s) * 1.4648) * 100)"
proof -
  have sym: "unat (if lsb_mode then 3 - s else s) = (if lsb_mode then 3 - unat s else unat s)"
    using lsb_symbol_valid [OF assms] by (cases lsb_mode) simp_all
  have "frequency_hz lsb_mode j_offset s
      = 1500 + real_of_int (sint j_offset)
        + real (unat (if lsb_mode then 3 - s else s)) * 1.4648"
    unfolding frequency_hz_def Let_def ..
  then have "frequency_hz lsb_mode j_offset s
      = 1500 + real_of_int (sint j_offset)
        + real (if lsb_mode then 3 - unat s else unat s) * 1.4648"
    by (simp only: sym)
  then show ?thesis by (simp only: frequency_entry_sint)
qed

section \<open>The correction of the longitude\<close>

lemma normalize_lon_plus: "- 180 < lon \<Longrightarrow> lon \<le> 180 \<Longrightarrow> normalize_lon (Fin (lon + 360)) = Fin lon"
  by (simp add: normalize_lon_def d_sub_def)

lemma normalize_lon_minus: "- 180 \<le> lon \<Longrightarrow> lon < 180 \<Longrightarrow> normalize_lon (Fin (lon - 360)) = Fin lon"
  by (simp add: normalize_lon_def d_sub_def)

lemma normalize_lon_id: "- 180 \<le> lon \<Longrightarrow> lon \<le> 180 \<Longrightarrow> normalize_lon (Fin lon) = Fin lon"
  by (simp add: normalize_lon_def d_sub_def)

lemma normalize_lon_range:
  "- 540 \<le> lon \<Longrightarrow> lon \<le> 540 \<Longrightarrow> \<exists>r. normalize_lon (Fin lon) = Fin r \<and> - 180 \<le> r \<and> r \<le> 180"
  by (auto simp: normalize_lon_def d_sub_def Let_def)

text \<open>Unfolding the two loops of the converter on a given input.\<close>

lemmas gsq_eval =
  gsq_digits_def ten_zeros_def gsq_loops_def gsq_body_def ydiv_arr_def normalize_lon_def
  d_sub_def Let_def upt_rec

lemmas gsq_string_eval =
  WSPRLatLonToGSQ_def gsq_result_def c_string_def char_cast_def trunc_def char_of_def
  nul_cast_def

section \<open>The grid-square converter\<close>

text \<open>
  C1. The claim: each shifted coordinate goes through five digit-extraction steps with
  the divisors 10, 1, 1/24, 1/240 and 1/5760. The table of divisors, as the
  initialisers of the source evaluate, is 10, 1, 0.04166666, 0 and 0: the quotients
  \<^verbatim>\<open>1 / 240\<close> and \<^verbatim>\<open>1 / 240 / 24\<close> are integer divisions. At latitude 0.5 and longitude 0
  the fourth step of the latitude column divides a positive remainder by zero, and the
  ten extracted values end in an infinity and three NaNs.
\<close>

theorem ydiv_arr_as_evaluated:
  "ydiv_arr = [Fin 10, Fin 1, Fin (4166666 / 100000000), Fin 0, Fin 0]
   \<and> ydiv_arr \<noteq> [Fin 10, Fin 1, Fin (1 / 24), Fin (1 / 240), Fin (1 / 5760)]
   \<and> gsq_digits (Fin 0) (Fin (1 / 2))
       = [Fin 9, Fin 9, Fin 0, Fin 0, Fin 6, Fin 0, PInf, NaN, NaN, NaN]"
  by (simp add: gsq_eval)

text \<open>
  C2. The claim: for finite coordinates with a latitude strictly between -90 and 90 the
  result has six characters, two in A..R, two in 0..9 and two in a..x. At longitude
  -100 and latitude 0 the second character is \<open>@\<close>: the longitude column starts from
  \<open>lon + 90\<close>, which is negative there. At longitude 0 and latitude 1.9999999 the fifth
  character is \<open>y\<close>: the remainder 0.99999995 divided by 0.04166666 is above 24.
\<close>

theorem gsq_outside_alphabet:
  "WSPRLatLonToGSQ nul_cast (Fin (- 100)) (Fin 0) = Inr ''J@00aa''
   \<and> \<not> spec_locator_shape ''J@00aa''
   \<and> WSPRLatLonToGSQ nul_cast (Fin 0) (Fin 1.9999999) = Inr ''JJ00ya''
   \<and> \<not> spec_locator_shape ''JJ00ya''"
  by (simp add: gsq_string_eval gsq_eval spec_locator_shape_def)

text \<open>
  C6. The claim: a longitude and the same longitude shifted by 360 give the same
  locator, the longitude being wrapped into the half-open interval from -180 to 180.
  The second correction of the source applies to longitudes above 180 only, so 180
  itself is kept: the longitudes -180 and -180 + 360 give different strings.
\<close>

theorem lon_wrap_counterexample:
  "WSPRLatLonToGSQ nul_cast (Fin (- 180)) (Fin 0) = Inr ''J800aa''
   \<and> WSPRLatLonToGSQ nul_cast (Fin (- 180 + 360)) (Fin 0)
       = Inr [CHR ''J'', CHR 0x5C, CHR ''0'', CHR ''0'', CHR ''a'', CHR ''a'']"
  by (simp add: gsq_string_eval gsq_eval)

text \<open>
  C6, as amended. For a longitude above -180 and at most 180, adding 360 does not
  change the result; for a longitude at least -180 and below 180, subtracting 360 does
  not change it; and a longitude between -540 and 540 is brought into the closed
  interval from -180 to 180.
\<close>

theorem lon_wrap_invariance:
  "(- 180 < lon \<and> lon \<le> 180 \<longrightarrow>
      WSPRLatLonToGSQ ub (Fin (lon + 360)) lat = WSPRLatLonToGSQ ub (Fin lon) lat)
   \<and> (- 180 \<le> lon \<and> lon < 180 \<longrightarrow>
      WSPRLatLonToGSQ ub (Fin (lon - 360)) lat = WSPRLatLonToGSQ ub (Fin lon) lat)
   \<and> (- 540 \<le> lon \<and> lon \<le> 540 \<longrightarrow>
      (\<exists>r. normalize_lon (Fin lon) = Fin r \<and> - 180 \<le> r \<and> r \<le> 180))"
  by (simp add: WSPRLatLonToGSQ_def gsq_digits_def normalize_lon_plus normalize_lon_minus
      normalize_lon_id normalize_lon_range)

theorem lon_wrap_invariance_witness:
  "WSPRLatLonToGSQ nul_cast (Fin (10 + 360)) (Fin 0) = WSPRLatLonToGSQ nul_cast (Fin 10) (Fin 0)
   \<and> WSPRLatLonToGSQ nul_cast (Fin (10 - 360)) (Fin 0) = WSPRLatLonToGSQ nul_cast (Fin 10) (Fin 0)
   \<and> normalize_lon (Fin 10) = Fin 10"
  using lon_wrap_invariance [of 10 nul_cast "Fin 0"] by (simp add: normalize_lon_def)

text \<open>
  C9. When the latitude or the longitude is NaN the converter throws the exception of
  the first check and returns no string; when the latitude is at least 90 in absolute
  value, the infinities included, and the longitude is not NaN, it throws the
  exception of the second check; for finite coordinates with a latitude strictly
  between -90 and 90 neither is thrown and a string is returned. (A NaN longitude
  together with a latitude beyond 90 meets the first check first.)
\<close>

theorem gsq_error_branches:
  "(isnan lat \<or> isnan lon \<longrightarrow> WSPRLatLonToGSQ ub lon lat = Inl (Exception nan_message))
   \<and> (\<not> isnan lon \<and> 90 \<le> \<bar>a\<bar> \<longrightarrow>
        WSPRLatLonToGSQ ub lon (Fin a) = Inl (Exception pole_message))
   \<and> (\<not> isnan lon \<longrightarrow>
        WSPRLatLonToGSQ ub lon PInf = Inl (Exception pole_message)
        \<and> WSPRLatLonToGSQ ub lon NInf = Inl (Exception pole_message))
   \<and> (\<bar>a\<bar> < 90 \<longrightarrow>
        WSPRLatLonToGSQ ub (Fin b) (Fin a)
          = Inr (c_string (gsq_result ub (gsq_digits (Fin b) (Fin a)))))"
  by (simp add: WSPRLatLonToGSQ_def)

theorem gsq_error_branches_witness:
  "WSPRLatLonToGSQ nul_cast (Fin 0) NaN = Inl (Exception nan_message)
   \<and> WSPRLatLonToGSQ nul_cast NaN (Fin 0) = Inl (Exception nan_message)
   \<and> WSPRLatLonToGSQ nul_cast (Fin 0) (Fin 90) = Inl (Exception pole_message)
   \<and> WSPRLatLonToGSQ nul_cast (Fin 0) NInf = Inl (Exception pole_message)
   \<and> WSPRLatLonToGSQ nul_cast (Fin 0) (Fin 0) = Inr ''JJ00aa''"
  using gsq_error_branches [of NaN "Fin 0" nul_cast 90 0]
    gsq_error_branches [of "Fin 0" NaN nul_cast 90 0]
    gsq_error_branches [of "Fin 0" "Fin 0" nul_cast 0 0]
  by (simp add: gsq_result_def c_string_def char_cast_def trunc_def char_of_def nul_cast_def
      gsq_eval)

text \<open>
  C10. With an infinite longitude and a latitude strictly between -90 and 90 neither
  check fires: the correction leaves the infinity in place, the longitude column
  extracts the infinity and then NaNs, and the converter returns the string read from
  the buffer, with the characters that the target gives for these values.
\<close>

theorem gsq_infinite_longitude:
  "\<bar>a\<bar> < 90 \<Longrightarrow>
     WSPRLatLonToGSQ ub PInf (Fin a) = Inr (c_string (gsq_result ub (gsq_digits PInf (Fin a))))
   \<and> WSPRLatLonToGSQ ub NInf (Fin a) = Inr (c_string (gsq_result ub (gsq_digits NInf (Fin a))))
   \<and> normalize_lon PInf = PInf \<and> normalize_lon NInf = NInf
   \<and> map (\<lambda>k. gsq_digits PInf (Fin a) ! k) [1, 3, 5] = [PInf, NaN, NaN]
   \<and> map (\<lambda>k. gsq_digits NInf (Fin a) ! k) [1, 3, 5] = [NInf, NaN, NaN]"
  by (simp add: WSPRLatLonToGSQ_def gsq_eval)

theorem gsq_infinite_longitude_witness:
  "WSPRLatLonToGSQ nul_cast PInf (Fin 0) = Inr ''J''
   \<and> WSPRLatLonToGSQ nul_cast NInf (Fin 0) = Inr ''J''"
  using gsq_infinite_longitude [of 0 nul_cast]
  by (simp add: gsq_result_def c_string_def char_cast_def trunc_def char_of_def nul_cast_def
      gsq_eval)

section \<open>The PCM encoder\<close>

text \<open>
  C3. The claim, and the comment of the source: the amplitude is the volume 16383
  halved. The source shifts the volume right by two bits, so the amplitude is 4095, a
  quarter of the volume, and neither 8191 nor 8191.5. With symbols of zero and no
  offset the sample at step 2, where the sine is 1, is 4095.
\<close>

theorem amp_quarter_of_volume:
  "amp = 4095
   \<and> sint volume div 2 = 8191
   \<and> amp \<noteq> real_of_int (sint volume div 2)
   \<and> amp \<noteq> real_of_int (sint volume) / 2
   \<and> pcm_sound zero_symbols 0 False ! 2 = 4095"
proof -
  have k: "(2::nat) < WSPR_SYMBOL_COUNT * WSPR_SYMBOL_LENGTH"
    by (simp add: WSPR_SYMBOL_COUNT_def WSPR_SYMBOL_LENGTH_def)
  have a: "amp = 4095" by (simp add: amp_def volume_def)
  have "pcm_sound zero_symbols 0 False ! 2 = short_cast (amp * sin (1500 * (2 * pi) / 12000 * 2))"
    by (simp add: pcm_sound_nth [OF k] block_sample_def lsb_symbol_def zero_symbols_def
        pcm_frequency_def pcm_sample_def TAU_def WSPR_SYMBOL_LENGTH_def)
  also have "\<dots> = 4095" by (simp add: a short_cast_def trunc_def)
  finally show ?thesis by (simp add: a volume_def)
qed

text \<open>
  C4. The claim: the PCM encoder returns 162 * 8192 samples of 16 bits, 2,657,024
  bytes in all. The byte array has 162 * 8192 * 2 = 2,654,208 elements.
\<close>

theorem pcm_byte_count_counterexample:
  "length (WSPREncodeToPCM LittleEndian zero_encoder [] [] 0 0 False) \<noteq> 2657024"
  by (simp add: WSPREncodeToPCM_def concat_fixed_length native_bytes_length pcm_sound_length
      WSPR_SYMBOL_COUNT_def WSPR_SYMBOL_LENGTH_def)

text \<open>
  C4, as amended. For every call sign, locator, power, offset and mode, and whatever
  the encoder leaves in the symbol array, the PCM encoder returns a byte array; the
  sample buffer has 162 * 8192 samples and the byte array 2,654,208 bytes.
\<close>

theorem pcm_encode_full_length:
  "length (pcm_sound (enc j_calls j_loca (powr_string j_powr)) j_offset lsb_mod) = 162 * 8192
   \<and> length (WSPREncodeToPCM e enc j_calls j_loca j_powr j_offset lsb_mod) = 2654208"
  by (simp add: WSPREncodeToPCM_def concat_fixed_length native_bytes_length pcm_sound_length
      WSPR_SYMBOL_COUNT_def WSPR_SYMBOL_LENGTH_def)

text \<open>
  C7. The sample buffer computed in LSB mode from a symbol array is the buffer
  computed without LSB mode from the array in which each symbol \<open>s\<close> is replaced by
  \<open>3 - s\<close>; on the four symbol values this replacement is 3, 2, 1, 0. In particular
  symbols of 0 in LSB mode give the samples of symbols of 3 without it.
\<close>

theorem lsb_mode_symmetry:
  "pcm_sound syms j_offset True = pcm_sound (\<lambda>i. 3 - syms i) j_offset False
   \<and> pcm_sound (\<lambda>i. 0) j_offset True = pcm_sound (\<lambda>i. 3) j_offset False
   \<and> map (\<lambda>s :: 8 word. 3 - s) [0, 1, 2, 3] = [3, 2, 1, 0]"
  by (simp add: pcm_sound_eq block_sample_def lsb_symbol_def)

text \<open>
  C8. With symbols of zero, no offset and no LSB mode, the frequency of every symbol
  is exactly 1500, and the sample at position \<open>step\<close> of each of the 162 blocks is the
  amplitude times the sine of \<open>2 * pi * 1500 * step / 12000\<close>, truncated to a 16-bit
  sample.
\<close>

theorem zero_symbols_base_tone:
  "i < 162 \<Longrightarrow> step < 8192 \<Longrightarrow>
   pcm_frequency 0 0 = 1500
   \<and> pcm_sound (\<lambda>i. 0) 0 False ! (i * 8192 + step)
       = short_cast (amp * sin (2 * pi * 1500 * real step / 12000))"
proof -
  assume i: "i < 162" and st: "step < 8192"
  have k: "i * 8192 + step < WSPR_SYMBOL_COUNT * WSPR_SYMBOL_LENGTH"
    using i st by (simp add: WSPR_SYMBOL_COUNT_def WSPR_SYMBOL_LENGTH_def)
  have f: "pcm_frequency 0 0 = 1500"
    by (simp add: pcm_frequency_def)
  have "(i * 8192 + step) mod WSPR_SYMBOL_LENGTH = step"
    using st by (simp add: WSPR_SYMBOL_LENGTH_def)
  then have "pcm_sound (\<lambda>i. 0) 0 False ! (i * 8192 + step)
       = short_cast (amp * sin (2 * pi * 1500 * real step / 12000))"
    by (simp add: pcm_sound_nth [OF k] block_sample_def lsb_symbol_def f
        pcm_sample_def TAU_def)
  with f show ?thesis by simp
qed

theorem zero_symbols_base_tone_witness:
  "pcm_sound (\<lambda>i. 0) 0 False ! (1 * 8192 + 2) = 4095"
  using zero_symbols_base_tone [of 1 2]
  by (simp add: amp_def volume_def short_cast_def trunc_def)

section \<open>The frequency encoder\<close>

text \<open>
  C5. The claim: each entry is the frequency times 100, rounded. The source converts
  the product to \<^verbatim>\<open>int64_t\<close>, which truncates: for symbol 2 without offset the product
  is 150292.96, the entry is 150292, and rounding gives 150293.
\<close>

theorem frequency_entry_counterexample:
  "sint (frequency_entry False 0 2) = 150292 \<and> round (frequency_hz False 0 2 * 100) = 150293"
  by (simp add: frequency_entry_def frequency_hz_def trunc_def round_def)

text \<open>
  C5, as amended. The entry of symbol 0 without offset is 150000. In general, for a
  symbol \<open>s\<close> from 0 to 3, the entry is the frequency in Hz times 100, truncated towards
  zero, where the frequency is 1500 plus the offset plus 1.4648 times the symbol, the
  symbol being \<open>3 - s\<close> in LSB mode. When both allocations succeed the encoder returns
  1296 bytes, and the eight bytes from position \<open>8 * i\<close> are the image in memory of
  entry \<open>i\<close>.
\<close>

theorem frequency_entry_value:
  "frequency_entry False 0 0 = 150000
   \<and> (unat s \<le> 3 \<longrightarrow>
        sint (frequency_entry lsb_mode j_offset s)
          = trunc ((1500 + real_of_int (sint j_offset)
                    + real (if lsb_mode then 3 - unat s else unat s) * 1.4648) * 100))
   \<and> (\<exists>bs. WSPREncodeToFrequencies e enc True True j_calls j_local j_powr j_offset lsb_mode = Some bs
        \<and> length bs = 1296
        \<and> (\<forall>i<162. take 8 (drop (8 * i) bs)
              = native_bytes e 8
                  (frequency_entry lsb_mode j_offset (enc j_calls j_local (powr_string j_powr) i))))"
proof -
  have a: "frequency_entry False 0 0 = 150000"
    by (simp add: frequency_entry_def frequency_hz_def trunc_def)
  have b: "unat s \<le> 3 \<longrightarrow>
        sint (frequency_entry lsb_mode j_offset s)
          = trunc ((1500 + real_of_int (sint j_offset)
                    + real (if lsb_mode then 3 - unat s else unat s) * 1.4648) * 100)"
    using frequency_entry_valid by blast
  let ?syms = "enc j_calls j_local (powr_string j_powr)"
  let ?bs = "concat (map (native_bytes e 8) (frequencies ?syms j_offset lsb_mode))"
  have len8: "\<And>w :: 64 word. length (native_bytes e 8 w) = 8" by (rule native_bytes_length)
  have flen: "length (frequencies ?syms j_offset lsb_mode) = 162"
    by (simp add: frequencies_def WSPR_SYMBOL_COUNT_def)
  have c1: "WSPREncodeToFrequencies e enc True True j_calls j_local j_powr j_offset lsb_mode = Some ?bs"
    by (simp add: WSPREncodeToFrequencies_def)
  have c2: "length ?bs = 1296"
    using concat_fixed_length [of "native_bytes e 8 :: 64 word \<Rightarrow> 8 word list" 8, OF len8] flen
    by simp
  have c3: "\<forall>i<162. take 8 (drop (8 * i) ?bs)
              = native_bytes e 8 (frequency_entry lsb_mode j_offset (?syms i))"
  proof (intro allI impI)
    fix i :: nat assume i: "i < 162"
    then have "i < length (frequencies ?syms j_offset lsb_mode)" using flen by simp
    then have "take 8 (drop (8 * i) ?bs) = native_bytes e 8 (frequencies ?syms j_offset lsb_mode ! i)"
      using concat_fixed_slice [of "native_bytes e 8 :: 64 word \<Rightarrow> 8 word list" 8, OF len8]
      by blast
    moreover have "frequencies ?syms j_offset lsb_mode ! i = frequency_entry lsb_mode j_offset (?syms i)"
      using i by (simp add: frequencies_def WSPR_SYMBOL_COUNT_def)
    ultimately show "take 8 (drop (8 * i) ?bs)
              = native_bytes e 8 (frequency_entry lsb_mode j_offset (?syms i))" by simp
  qed
  show ?thesis using a b c1 c2 c3 by blast
qed

theorem frequency_entry_value_witness:
  "sint (frequency_entry True 7 1) = 150992
   \<and> take 8 (drop (8 * 0)
     (the (WSPREncodeToFrequencies LittleEndian zero_encoder True True [] [] 0 0 False)))
     = [240, 73, 2, 0, 0, 0, 0, 0]
   \<and> take 8 (drop (8 * 161)
     (the (WSPREncodeToFrequencies BigEndian zero_encoder True True [] [] 0 0 False)))
     = [0, 0, 0, 0, 0, 2, 73, 240]"
proof -
  have v: "sint (frequency_entry True 7 1) = 150992"
    using frequency_entry_value [where s = 1 and lsb_mode = True and j_offset = 7]
    by (simp add: trunc_def)
  have e: "frequency_entry False 0 0 = 150000"
    "zero_encoder [] [] (powr_string 0) = zero_symbols"
    using frequency_entry_value [where s = 0 and lsb_mode = False and j_offset = 0 and e = LittleEndian
        and enc = zero_encoder and j_calls = "[]" and j_local = "[]" and j_powr = 0]
    by (simp_all add: zero_encoder_def)
  obtain bs where bs: "WSPREncodeToFrequencies LittleEndian zero_encoder True True [] [] 0 0 False = Some bs"
    "\<forall>i<162. take 8 (drop (8 * i) bs)
        = native_bytes LittleEndian 8 (frequency_entry False 0 (zero_encoder [] [] (powr_string 0) i))"
    using frequency_entry_value [where s = 0 and lsb_mode = False and j_offset = 0 and e = LittleEndian
        and enc = zero_encoder and j_calls = "[]" and j_local = "[]" and j_powr = 0] by blast
  obtain cs where cs: "WSPREncodeToFrequencies BigEndian zero_encoder True True [] [] 0 0 False = Some cs"
    "\<forall>i<162. take 8 (drop (8 * i) cs)
        = native_bytes BigEndian 8 (frequency_entry False 0 (zero_encoder [] [] (powr_string 0) i))"
    using frequency_entry_value [where s = 0 and lsb_mode = False and j_offset = 0 and e = BigEndian
        and enc = zero_encoder and j_calls = "[]" and j_local = "[]" and j_powr = 0] by blast
  have "take 8 (drop (8 * 0) bs) = native_bytes LittleEndian 8 (150000 :: 64 word)"
    using bs(2) [rule_format, of 0] e by (simp add: zero_symbols_def)
  moreover have "take 8 (drop (8 * 161) cs) = native_bytes BigEndian 8 (150000 :: 64 word)"
    using cs(2) [rule_format, of 161] e by (simp add: zero_symbols_def)
  ultimately show ?thesis using v bs(1) cs(1) native_bytes_150000 by simp
qed

end
